theory Spec2Isabelle
  imports Complex_Main
begin

text \<open>
  A model of the meeting recorder application. Where the modelled code is found in the
  source tree: the \<^verbatim>\<open>App\<close> component in \<^verbatim>\<open>unnamed/part_000\<close>; the summarization
  service in \<^verbatim>\<open>services/geminiService.ts\<close>; the \<^verbatim>\<open>SummaryView\<close> component and,
  after it in the same file, the \<^verbatim>\<open>Recorder\<close> component in
  \<^verbatim>\<open>components/SummaryView.tsx\<close>; the interfaces of \<^verbatim>\<open>types.ts\<close> at the end of
  \<^verbatim>\<open>vite.config.ts\<close>; the mock data in \<^verbatim>\<open>constants.ts\<close>.
\<close>

section \<open>Data model (types.ts)\<close>

text \<open>
  The interfaces of \<^verbatim>\<open>types.ts\<close> as records. Field names carry a short prefix
  because several interfaces share the names \<^verbatim>\<open>id\<close>, \<^verbatim>\<open>label\<close>,
  \<^verbatim>\<open>timestamp\<close> and \<^verbatim>\<open>transcript\<close>. Session timestamps are the
  values of the one-second duration counter, hence natural numbers; player positions
  (\<^verbatim>\<open>video.currentTime\<close>) are fractional seconds, hence rationals.
\<close>

datatype AppState = CALENDAR | RECORDING | PROCESSING | SUMMARY

record UserProfile =
  user_name :: string
  user_email :: string
  user_avatar :: string

record Attendee =
  att_id :: string
  att_name :: string
  att_email :: string
  att_avatar :: string

datatype Platform = GoogleMeet | Zoom | MicrosoftTeams

datatype MeetingSource = MANUAL | GOOGLE_CALENDAR

record Meeting =
  meeting_id :: string
  meeting_title :: string
  meeting_platform :: Platform
  meeting_time :: string
  meeting_duration :: string
  meeting_url :: string
  meeting_attendees :: "Attendee list"
  meeting_source :: "MeetingSource option"

record TranscriptSegment =
  seg_timestamp :: nat
  seg_text :: string
  seg_isFinal :: bool

record MeetingHighlight =
  hl_timestamp :: nat
  hl_label :: string

record VideoClip =
  clip_id :: string
  clip_label :: string
  clip_start :: rat
  clip_end :: rat

record SummaryData =
  meetingTitle :: string
  date :: string
  summaryText :: string
  keyPoints :: "string list"
  actionItems :: "string list"
  attendeesDetected :: "string list"
  sentiment :: string
  followUpEmail :: string
  transcript :: "TranscriptSegment list"

text \<open>
  A thrown JavaScript value: an \<^verbatim>\<open>Error\<close> with its message, or a
  \<^verbatim>\<open>DOMException\<close> (also \<^verbatim>\<open>TypeError\<close> and the like) identified by its
  \<^verbatim>\<open>name\<close>.
\<close>

datatype error = Error string | Named string

fun error_name :: "error \<Rightarrow> string" where
  "error_name (Error msg) = ''Error''"
| "error_name (Named n) = n"

section \<open>JavaScript's \<^verbatim>\<open>||\<close> on optional fields\<close>

text \<open>
  \<^verbatim>\<open>x || d\<close> yields \<^verbatim>\<open>d\<close> when \<^verbatim>\<open>x\<close> is falsy. A missing
  (\<^verbatim>\<open>undefined\<close> or \<^verbatim>\<open>null\<close>) field is \<open>None\<close>. The empty string is
  falsy too; every array, the empty one included, is truthy.
\<close>

definition or_string :: "string option \<Rightarrow> string \<Rightarrow> string" where
  "or_string x d = (case x of None \<Rightarrow> d | Some s \<Rightarrow> if s = [] then d else s)"

definition or_array :: "'a list option \<Rightarrow> 'a list \<Rightarrow> 'a list" where
  "or_array x d = (case x of None \<Rightarrow> d | Some xs \<Rightarrow> xs)"

section \<open>constants.ts\<close>

definition MOCK_ATTENDEES :: "Attendee list" where
  "MOCK_ATTENDEES =
    [\<lparr>att_id = ''1'', att_name = ''Sarah Chen'', att_email = ''sarah.c@techcorp.com'',
       att_avatar = ''https://picsum.photos/id/64/100/100''\<rparr>,
     \<lparr>att_id = ''2'', att_name = ''Marcus Rodriguez'', att_email = ''m.rod@techcorp.com'',
       att_avatar = ''https://picsum.photos/id/91/100/100''\<rparr>,
     \<lparr>att_id = ''3'', att_name = ''Alex Kim'', att_email = ''alex.k@design.io'',
       att_avatar = ''https://picsum.photos/id/177/100/100''\<rparr>]"

definition UPCOMING_MEETINGS :: "Meeting list" where
  "UPCOMING_MEETINGS =
    [\<lparr>meeting_id = ''m1'', meeting_title = ''Q3 Product Roadmap Review'',
       meeting_platform = GoogleMeet, meeting_time = ''10:00 AM'',
       meeting_duration = ''45 min'', meeting_url = ''https://meet.google.com/abc-defg-hij'',
       meeting_attendees = [MOCK_ATTENDEES ! 0, MOCK_ATTENDEES ! 1],
       meeting_source = None\<rparr>,
     \<lparr>meeting_id = ''m2'', meeting_title = ''Design Handoff Sync'',
       meeting_platform = Zoom, meeting_time = ''11:30 AM'',
       meeting_duration = ''30 min'', meeting_url = ''https://zoom.us/j/123456789'',
       meeting_attendees = [MOCK_ATTENDEES ! 2],
       meeting_source = None\<rparr>,
     \<lparr>meeting_id = ''m3'', meeting_title = ''Weekly Engineering Standup'',
       meeting_platform = GoogleMeet, meeting_time = ''2:00 PM'',
       meeting_duration = ''15 min'', meeting_url = ''https://meet.google.com/xyz-uvwx-yz'',
       meeting_attendees = [MOCK_ATTENDEES ! 0, MOCK_ATTENDEES ! 1, MOCK_ATTENDEES ! 2],
       meeting_source = None\<rparr>]"

section \<open>App: merging imported meetings (handleGoogleConnect)\<close>

text \<open>
  Both branches of \<^verbatim>\<open>handleGoogleConnect\<close> pass the same updater to
  \<^verbatim>\<open>setMeetings\<close>:
  \<^verbatim>\<open>prev => { const existingIds = new Set(prev.map(m => m.id));
            const newEvents = events.filter(e => !existingIds.has(e.id));
            return [...prev, ...newEvents]; }\<close>
  The demo branch filters \<^verbatim>\<open>UPCOMING_MEETINGS\<close>, the other one the events
  fetched from the calendar.
\<close>

definition setMeetings_calendar :: "Meeting list \<Rightarrow> Meeting list \<Rightarrow> Meeting list" where
  "setMeetings_calendar calendarEvents prev =
     (let existingIds = set (map meeting_id prev);
          newEvents = filter (\<lambda>e. \<not> (meeting_id e \<in> existingIds)) calendarEvents
      in prev @ newEvents)"

definition setMeetings_demo :: "Meeting list \<Rightarrow> Meeting list" where
  "setMeetings_demo prev =
     (let existingIds = set (map meeting_id prev);
          newEvents = filter (\<lambda>e. \<not> (meeting_id e \<in> existingIds)) UPCOMING_MEETINGS
      in prev @ newEvents)"

section \<open>services/geminiService.ts\<close>

text \<open>
  \<^verbatim>\<open>const apiKey = process.env.API_KEY || ''\<close>, evaluated once when the module is
  loaded. The argument is the environment entry, \<open>None\<close> when it is not set.
\<close>

definition apiKey :: "string option \<Rightarrow> string" where
  "apiKey env_API_KEY = or_string env_API_KEY []"

text \<open>
  \<^verbatim>\<open>new Date(t * 1000).toISOString().substr(11, 8)\<close> for a whole number of seconds
  \<open>t\<close>: the time of day \<^verbatim>\<open>HH:MM:SS\<close> of the instant \<open>t\<close> seconds after the
  epoch.
\<close>

definition digit_char :: "nat \<Rightarrow> char" where
  "digit_char d = char_of (48 + d)"

definition two_digits :: "nat \<Rightarrow> string" where
  "two_digits n = [digit_char (n div 10 mod 10), digit_char (n mod 10)]"

definition iso_time :: "nat \<Rightarrow> string" where
  "iso_time t =
     two_digits (t div 3600 mod 24) @ '':'' @ two_digits (t div 60 mod 60) @ '':'' @
     two_digits (t mod 60)"

fun join :: "string \<Rightarrow> string list \<Rightarrow> string" where
  "join sep [] = []"
| "join sep [x] = x"
| "join sep (x # y # ys) = x @ sep @ join sep (y # ys)"

definition formattedTranscript :: "TranscriptSegment list \<Rightarrow> string" where
  "formattedTranscript ts =
     join [CHR 0x0A] (map (\<lambda>t. ''['' @ iso_time (seg_timestamp t) @ ''] '' @ seg_text t) ts)"

definition formattedHighlights :: "MeetingHighlight list \<Rightarrow> string" where
  "formattedHighlights hs =
     join [CHR 0x0A]
       (map (\<lambda>h. ''User marked important moment at: '' @ iso_time (hl_timestamp h)) hs)"

text \<open>
  The request handed to \<^verbatim>\<open>ai.models.generateContent\<close>. The prompt is a fixed
  template with three interpolated slots; the record keeps the slots, the inline audio
  data and the model name, which together determine the request.
\<close>

record GeminiRequest =
  req_model :: string
  req_audio :: string
  req_context :: string
  req_highlights :: string
  req_transcript :: string

text \<open>
  The object obtained from \<^verbatim>\<open>JSON.parse\<close>: every field of the response schema
  may be missing. A \<^verbatim>\<open>transcript\<close> key is not part of the schema, but nothing
  stops the backend from sending one, so the record has it as well.
\<close>

record GeminiResponse =
  p_summaryText :: "string option"
  p_keyPoints :: "string list option"
  p_actionItems :: "string list option"
  p_attendeesDetected :: "string list option"
  p_sentiment :: "string option"
  p_followUpEmail :: "string option"
  p_transcript :: "TranscriptSegment list option"

definition empty_object :: GeminiResponse where
  "empty_object =
     \<lparr>p_summaryText = None, p_keyPoints = None, p_actionItems = None,
      p_attendeesDetected = None, p_sentiment = None, p_followUpEmail = None,
      p_transcript = None\<rparr>"

text \<open>
  \<^verbatim>\<open>JSON.parse(response.text || '{}')\<close>. The parser itself is the platform's and
  is a parameter; on the literal \<^verbatim>\<open>{}\<close> it yields the object without fields.
\<close>

definition JSON_parse ::
  "(string \<Rightarrow> error + GeminiResponse) \<Rightarrow> string \<Rightarrow> error + GeminiResponse" where
  "JSON_parse parse s = (if s = ''{}'' then Inr empty_object else parse s)"

text \<open>
  \<^verbatim>\<open>generateMeetingSummary\<close>. The backend call is a parameter: it either rejects
  with an error or resolves with a response whose \<^verbatim>\<open>text\<close> may be undefined.
  The function returns the list of requests it sent to the backend together with its
  outcome (\<open>Inl\<close>: the promise rejects with that error).
\<close>

definition generateMeetingSummary ::
  "string option \<Rightarrow> (GeminiRequest \<Rightarrow> error + string option) \<Rightarrow>
   (string \<Rightarrow> error + GeminiResponse) \<Rightarrow>
   string \<Rightarrow> string \<Rightarrow> TranscriptSegment list \<Rightarrow> MeetingHighlight list \<Rightarrow>
   GeminiRequest list \<times> (error + GeminiResponse)" where
  "generateMeetingSummary env_API_KEY generateContent parse audioBase64 context ts hs =
     (if apiKey env_API_KEY = [] then
        ([], Inl (Error ''API Key is missing. Please set process.env.API_KEY''))
      else
        let request =
              \<lparr>req_model = ''gemini-2.5-flash'', req_audio = audioBase64,
               req_context = context,
               req_highlights = or_string (Some (formattedHighlights hs)) ''None provided.'',
               req_transcript = or_string (Some (formattedTranscript ts))
                  ''No live transcript available, rely on audio.''\<rparr>
        in ([request],
            case generateContent request of
              Inl e \<Rightarrow> Inl e
            | Inr response_text \<Rightarrow>
                (case JSON_parse parse (or_string response_text ''{}'') of
                   Inl e \<Rightarrow> Inl e
                 | Inr parsed \<Rightarrow> Inr (parsed\<lparr>p_transcript := Some ts\<rparr>))))"

section \<open>App: handing a finished recording to the summarizer (handleStopRecording)\<close>

text \<open>
  A \<^verbatim>\<open>Blob\<close> is its bytes; \<^verbatim>\<open>FileReader\<close>'s base64 rendering of it
  (the part of the data URL after the comma) is a parameter.
\<close>

type_synonym Blob = string

record App =
  app_state :: AppState
  activeMeeting :: "Meeting option"
  summaryData :: "SummaryData option"
  recordedVideoBlob :: "Blob option"
  processingError :: "string option"

text \<open>
  The context string
  \<^verbatim>\<open>`Meeting Title: ${activeMeeting?.title}. Attendees: ${activeMeeting?.attendees.map(a => a.name).join(', ')}`\<close>;
  an optional chain on \<^verbatim>\<open>null\<close> interpolates as \<^verbatim>\<open>undefined\<close>.
\<close>

definition summary_context :: "Meeting option \<Rightarrow> string" where
  "summary_context m =
     ''Meeting Title: '' @ (case m of None \<Rightarrow> ''undefined'' | Some a \<Rightarrow> meeting_title a) @
     ''. Attendees: '' @
     (case m of None \<Rightarrow> ''undefined''
      | Some a \<Rightarrow> join '', '' (map att_name (meeting_attendees a)))"

text \<open>The object passed to \<^verbatim>\<open>setSummaryData\<close>.\<close>

definition normalizeSummary :: "Meeting option \<Rightarrow> string \<Rightarrow> GeminiResponse \<Rightarrow> SummaryData" where
  "normalizeSummary m today result =
     \<lparr>meetingTitle = or_string (map_option meeting_title m) ''Unknown Meeting'',
      date = today,
      summaryText = or_string (p_summaryText result) ''No summary generated.'',
      keyPoints = or_array (p_keyPoints result) [],
      actionItems = or_array (p_actionItems result) [],
      attendeesDetected = or_array (p_attendeesDetected result) [],
      sentiment = or_string (p_sentiment result) ''Neutral'',
      followUpEmail = or_string (p_followUpEmail result) [],
      transcript = or_array (p_transcript result) []\<rparr>"

text \<open>
  \<^verbatim>\<open>App.handleStopRecording\<close>, run to the end of its asynchronous part. The
  arguments before the four of the \<^verbatim>\<open>onStop\<close> callback are the environment:
  the API key entry, the backend, the JSON parser, the base64 encoder and today's date.
\<close>

definition App_handleStopRecording ::
  "string option \<Rightarrow> (GeminiRequest \<Rightarrow> error + string option) \<Rightarrow>
   (string \<Rightarrow> error + GeminiResponse) \<Rightarrow> (Blob \<Rightarrow> string) \<Rightarrow> string \<Rightarrow>
   Blob \<Rightarrow> Blob option \<Rightarrow> TranscriptSegment list \<Rightarrow> MeetingHighlight list \<Rightarrow>
   App \<Rightarrow> GeminiRequest list \<times> App" where
  "App_handleStopRecording env_API_KEY generateContent parse cleanBase64 today
      audioVideoBlob videoBlob ts hs app =
     (let app1 = app\<lparr>app_state := PROCESSING, recordedVideoBlob := videoBlob\<rparr>;
          (sent, outcome) =
             generateMeetingSummary env_API_KEY generateContent parse
               (cleanBase64 audioVideoBlob) (summary_context (activeMeeting app1)) ts hs
      in case outcome of
           Inr result \<Rightarrow>
             (sent, app1\<lparr>summaryData := Some (normalizeSummary (activeMeeting app1) today result),
                         app_state := SUMMARY\<rparr>)
         | Inl apiError \<Rightarrow>
             (sent, app1\<lparr>processingError :=
                            Some ''Failed to generate summary with Gemini. Please try again.'',
                         app_state := CALENDAR\<rparr>))"

section \<open>components/Recorder: platform objects\<close>

datatype TrackKind = AudioTrack | VideoTrack

record MediaStreamTrack =
  track_id :: nat
  track_kind :: TrackKind

type_synonym MediaStream = "MediaStreamTrack list"

definition getAudioTracks :: "MediaStream \<Rightarrow> MediaStreamTrack list" where
  "getAudioTracks stream = filter (\<lambda>t. track_kind t = AudioTrack) stream"

definition getVideoTracks :: "MediaStream \<Rightarrow> MediaStreamTrack list" where
  "getVideoTracks stream = filter (\<lambda>t. track_kind t = VideoTrack) stream"

datatype RecordingState = inactive | recording | paused

record MediaRecorder =
  mr_stream :: MediaStream
  mr_state :: RecordingState

text \<open>
  The audio graph: the streams whose source node is connected to the
  \<^verbatim>\<open>MediaStreamDestination\<close>, and whether the context has been closed.
\<close>

record AudioContext =
  ctx_closed :: bool
  ctx_inputs :: "MediaStream list"

record SpeechRecognition =
  sr_started :: bool
  sr_start_calls :: nat

record SpeechRecognitionResult =
  isFinal :: bool
  alternative0 :: string

record SpeechRecognitionEvent =
  resultIndex :: nat
  results :: "SpeechRecognitionResult list"

text \<open>
  What the browser answers during \<^verbatim>\<open>startCapture\<close>: the outcome of the two
  permission prompts, the audio track of the mixing destination, whether
  \<^verbatim>\<open>webkitSpeechRecognition\<close> exists, whether \<^verbatim>\<open>MediaRecorder\<close> accepts
  the requested MIME type (its constructor throws \<^verbatim>\<open>NotSupportedError\<close>
  otherwise), and the id returned by \<^verbatim>\<open>setInterval\<close>.
\<close>

record Browser =
  getDisplayMedia :: "error + MediaStream"
  getUserMedia :: "error + MediaStream"
  destinationTrack :: MediaStreamTrack
  speechSupported :: bool
  mimeSupported :: bool
  timerId :: nat

section \<open>components/Recorder: component state\<close>

datatype RecorderStatus = Status_IDLE | Status_RECORDING | Status_PAUSED

text \<open>
  The values of the \<^verbatim>\<open>useState\<close> variables that a function defined in the
  component body reads are those of the render in which that function was created:
  they are \<^verbatim>\<open>const\<close> bindings of that render and never change afterwards.
\<close>

record Render =
  c_status :: RecorderStatus
  c_duration :: nat
  c_transcript :: "TranscriptSegment list"
  c_highlights :: "MeetingHighlight list"

text \<open>
  The component: its React state, its refs, the state of the platform objects it
  created (which tracks are live, whether the interval timer runs, the listener on the
  display video track, \<^verbatim>\<open>stop\<close> events queued by the recorder and not yet
  delivered) and the calls it made through its props and to \<^verbatim>\<open>window.open\<close>.
  The waveform visualizer (\<^verbatim>\<open>analyserRef\<close>, \<^verbatim>\<open>animationRef\<close>) is left out.
\<close>

record Recorder =
  status :: RecorderStatus
  duration :: nat
  errorState :: "string option"
  transcriptState :: "TranscriptSegment list"
  currentText :: string
  highlights :: "MeetingHighlight list"
  streamRef :: "MediaStream option"
  mediaRecorderRef :: "MediaRecorder option"
  chunksRef :: "Blob list"
  intervalRef :: "nat option"
  audioContextRef :: "AudioContext option"
  recognitionRef :: "SpeechRecognition option"
  liveTracks :: "MediaStreamTrack set"
  intervalActive :: bool
  endedListener :: "MediaStreamTrack option"
  stopEventsPending :: nat
  mr_stop_calls :: nat
  openedUrls :: "string list"
  onStop_calls :: "(Blob \<times> Blob option \<times> TranscriptSegment list \<times> MeetingHighlight list) list"
  onCancel_calls :: nat

definition initial_Recorder :: Recorder where
  "initial_Recorder =
     \<lparr>status = Status_IDLE, duration = 0, errorState = None, transcriptState = [],
      currentText = [], highlights = [], streamRef = None, mediaRecorderRef = None,
      chunksRef = [], intervalRef = None, audioContextRef = None, recognitionRef = None,
      liveTracks = {}, intervalActive = False, endedListener = None,
      stopEventsPending = 0, mr_stop_calls = 0, openedUrls = [], onStop_calls = [],
      onCancel_calls = 0\<rparr>"

text \<open>The render that is current in a given state, and the first render.\<close>

definition current_render :: "Recorder \<Rightarrow> Render" where
  "current_render s =
     \<lparr>c_status = status s, c_duration = duration s, c_transcript = transcriptState s,
      c_highlights = highlights s\<rparr>"

definition mount_render :: Render where
  "mount_render = current_render initial_Recorder"

section \<open>components/Recorder: handlers\<close>

text \<open>
  \<^verbatim>\<open>cleanup\<close>. It reads refs only. \<^verbatim>\<open>streamRef.current\<close> is the mixed
  stream built by \<^verbatim>\<open>startCapture\<close>; a timer id of 0 would be falsy.
\<close>

definition cleanup :: "Recorder \<Rightarrow> Recorder" where
  "cleanup s =
     (let s1 = (case intervalRef s of
                  None \<Rightarrow> s
                | Some i \<Rightarrow> if i = 0 then s else s\<lparr>intervalActive := False\<rparr>);
          s2 = (case streamRef s1 of
                  None \<Rightarrow> s1
                | Some stream \<Rightarrow> s1\<lparr>liveTracks := liveTracks s1 - set stream\<rparr>);
          s3 = (case audioContextRef s2 of
                  None \<Rightarrow> s2
                | Some ctx \<Rightarrow> s2\<lparr>audioContextRef := Some (ctx\<lparr>ctx_closed := True\<rparr>)\<rparr>)
      in case recognitionRef s3 of
           None \<Rightarrow> s3
         | Some r \<Rightarrow> s3\<lparr>recognitionRef := Some (r\<lparr>sr_started := False\<rparr>)\<rparr>)"

text \<open>
  \<^verbatim>\<open>App\<close> renders the component only while its own state is
  \<^verbatim>\<open>RECORDING\<close>. Both props, \<^verbatim>\<open>onStop\<close> (\<^verbatim>\<open>App.handleStopRecording\<close>) and
  \<^verbatim>\<open>onCancel\<close> (\<^verbatim>\<open>resetApp\<close>), leave that state, so the component is unmounted
  and the function returned by its mount effect, which calls \<^verbatim>\<open>cleanup\<close>, runs.
\<close>

definition unmount :: "Recorder \<Rightarrow> Recorder" where
  "unmount s = cleanup s"

definition onCancel :: "Recorder \<Rightarrow> Recorder" where
  "onCancel s = unmount (s\<lparr>onCancel_calls := onCancel_calls s + 1\<rparr>)"

definition onStop ::
  "Blob \<Rightarrow> Blob option \<Rightarrow> TranscriptSegment list \<Rightarrow> MeetingHighlight list \<Rightarrow>
   Recorder \<Rightarrow> Recorder" where
  "onStop audioBlob videoBlob ts hs s =
     unmount (s\<lparr>onStop_calls := onStop_calls s @ [(audioBlob, videoBlob, ts, hs)]\<rparr>)"

text \<open>
  \<^verbatim>\<open>recognition.start()\<close> throws \<^verbatim>\<open>InvalidStateError\<close> on a recognition that
  is already started. The result is what was thrown, if anything, and the object.
\<close>

definition recognition_start :: "SpeechRecognition \<Rightarrow> error option \<times> SpeechRecognition" where
  "recognition_start r =
     (if sr_started r
      then (Some (Named ''InvalidStateError''), r\<lparr>sr_start_calls := sr_start_calls r + 1\<rparr>)
      else (None, r\<lparr>sr_started := True, sr_start_calls := sr_start_calls r + 1\<rparr>))"

text \<open>
  The loop of \<^verbatim>\<open>recognition.onresult\<close> over the results from
  \<^verbatim>\<open>event.resultIndex\<close> on, accumulating the pair \<open>(interim, final)\<close>.
\<close>

fun collect_results :: "SpeechRecognitionResult list \<Rightarrow> string \<times> string \<Rightarrow> string \<times> string" where
  "collect_results [] (interim, final) = (interim, final)"
| "collect_results (r # rs) (interim, final) =
     (if isFinal r then collect_results rs (interim, final @ alternative0 r)
      else collect_results rs (interim @ alternative0 r, final))"

text \<open>
  The handlers that read \<^verbatim>\<open>useState\<close> variables take the render they belong to
  as their first argument. State setters called with an updater function
  (\<^verbatim>\<open>prev => ...\<close>) act on the current state.
\<close>

definition onresult :: "Render \<Rightarrow> SpeechRecognitionEvent \<Rightarrow> Recorder \<Rightarrow> Recorder" where
  "onresult env event s =
     (let (interim, final) = collect_results (drop (resultIndex event) (results event)) ([], [])
      in if final \<noteq> [] then
           s\<lparr>transcriptState := transcriptState s @
                [\<lparr>seg_timestamp = c_duration env, seg_text = final, seg_isFinal = True\<rparr>],
             currentText := []\<rparr>
         else s\<lparr>currentText := interim\<rparr>)"

definition onend :: "Render \<Rightarrow> Recorder \<Rightarrow> Recorder" where
  "onend env s =
     (if c_status env = Status_RECORDING then
        (case recognitionRef s of
           None \<Rightarrow> s
         | Some r \<Rightarrow> s\<lparr>recognitionRef := Some (snd (recognition_start r))\<rparr>)
      else s)"

definition ondataavailable :: "Blob \<Rightarrow> Recorder \<Rightarrow> Recorder" where
  "ondataavailable data s =
     (if length data > 0 then s\<lparr>chunksRef := chunksRef s @ [data]\<rparr> else s)"

definition onstop :: "Render \<Rightarrow> Recorder \<Rightarrow> Recorder" where
  "onstop env s =
     (let fullBlob = concat (chunksRef s);
          s1 = (case recognitionRef s of
                  None \<Rightarrow> s
                | Some r \<Rightarrow> s\<lparr>recognitionRef := Some (r\<lparr>sr_started := False\<rparr>)\<rparr>)
      in onStop fullBlob (Some fullBlob) (c_transcript env) (c_highlights env) s1)"

text \<open>
  \<^verbatim>\<open>MediaRecorder.stop()\<close> on a recorder that is not inactive makes it inactive
  and queues one \<^verbatim>\<open>stop\<close> event.
\<close>

definition handleStopRecording :: "Recorder \<Rightarrow> Recorder" where
  "handleStopRecording s =
     cleanup
       (case mediaRecorderRef s of
          None \<Rightarrow> s
        | Some mr \<Rightarrow>
            if mr_state mr \<noteq> inactive then
              s\<lparr>mediaRecorderRef := Some (mr\<lparr>mr_state := inactive\<rparr>),
                mr_stop_calls := mr_stop_calls s + 1,
                stopEventsPending := stopEventsPending s + 1\<rparr>
            else s)"

definition addHighlight :: "Render \<Rightarrow> Recorder \<Rightarrow> Recorder" where
  "addHighlight env s =
     (let timestamp = c_duration env
      in s\<lparr>highlights := highlights s @ [\<lparr>hl_timestamp = timestamp, hl_label = ''Important''\<rparr>]\<rparr>)"

definition initSpeechRecognition :: "Browser \<Rightarrow> Recorder \<Rightarrow> Recorder" where
  "initSpeechRecognition browser s =
     (if \<not> speechSupported browser then s
      else s\<lparr>recognitionRef :=
               Some (snd (recognition_start \<lparr>sr_started = False, sr_start_calls = 0\<rparr>))\<rparr>)"

text \<open>The \<^verbatim>\<open>catch\<close> block of \<^verbatim>\<open>startCapture\<close>.\<close>

definition startCapture_catch :: "error \<Rightarrow> Recorder \<Rightarrow> Recorder" where
  "startCapture_catch err s =
     (let s1 = s\<lparr>errorState :=
                   Some ''Failed to access screen or microphone. Please allow permissions.''\<rparr>
      in if error_name err = ''NotAllowedError'' then onCancel s1 else s1)"

text \<open>
  \<^verbatim>\<open>startCapture\<close>. A granted stream's tracks become live. The mixed stream holds
  the display's video tracks and the destination's audio track; it is the only stream
  kept in a ref. \<^verbatim>\<open>displayStream.getVideoTracks()[0].onended = ...\<close> throws a
  \<^verbatim>\<open>TypeError\<close> when the display stream has no video track.
\<close>

definition startCapture :: "Meeting \<Rightarrow> Browser \<Rightarrow> Recorder \<Rightarrow> Recorder" where
  "startCapture meeting browser s =
     (let s1 = s\<lparr>errorState := None, openedUrls := openedUrls s @ [meeting_url meeting]\<rparr>
      in case getDisplayMedia browser of
           Inl err \<Rightarrow> startCapture_catch err s1
         | Inr displayStream \<Rightarrow>
            (let s2 = s1\<lparr>liveTracks := liveTracks s1 \<union> set displayStream\<rparr>
             in case getUserMedia browser of
                  Inl err \<Rightarrow> startCapture_catch err s2
                | Inr micStream \<Rightarrow>
                   (let dest_stream = [destinationTrack browser];
                        audioCtx =
                          \<lparr>ctx_closed = False,
                           ctx_inputs =
                             (if length (getAudioTracks displayStream) > 0
                              then [displayStream] else []) @
                             (if length (getAudioTracks micStream) > 0
                              then [micStream] else [])\<rparr>;
                        mixedStream = getVideoTracks displayStream @ getAudioTracks dest_stream;
                        s3 = s2\<lparr>liveTracks := liveTracks s2 \<union> set micStream \<union> set dest_stream,
                                audioContextRef := Some audioCtx,
                                streamRef := Some mixedStream\<rparr>;
                        s4 = initSpeechRecognition browser s3
                    in case getVideoTracks displayStream of
                         [] \<Rightarrow> startCapture_catch (Named ''TypeError'') s4
                       | v # _ \<Rightarrow>
                          (let s5 = s4\<lparr>endedListener := Some v\<rparr>
                           in if \<not> mimeSupported browser
                              then startCapture_catch (Named ''NotSupportedError'') s5
                              else s5\<lparr>mediaRecorderRef :=
                                         Some \<lparr>mr_stream = mixedStream, mr_state = recording\<rparr>,
                                       status := Status_RECORDING,
                                       intervalRef := Some (timerId browser),
                                       intervalActive := True\<rparr>))))"

section \<open>components/Recorder: the event loop\<close>

text \<open>
  All callbacks run on one event loop. \<^verbatim>\<open>startCapture\<close> is called once, by the
  mount effect (\<^verbatim>\<open>useEffect(() => { startCapture(); ... }, [])\<close>), so it is the
  \<^verbatim>\<open>startCapture\<close> of the first render, and the callbacks it installs
  (\<^verbatim>\<open>onresult\<close>, \<^verbatim>\<open>onend\<close>, \<^verbatim>\<open>onstop\<close>, \<^verbatim>\<open>onended\<close>) are created in
  the scope of that render. The click handlers are taken from the JSX of the current
  render.
\<close>

datatype Event =
    Tick
  | DataAvailable Blob
  | SpeechResult SpeechRecognitionEvent
  | SpeechEnd
  | ClickStop
  | ClickHighlight
  | DisplayTrackEnded
  | RecorderStop

definition dispatch :: "Event \<Rightarrow> Recorder \<Rightarrow> Recorder" where
  "dispatch ev s =
     (case ev of
        Tick \<Rightarrow> if intervalActive s then s\<lparr>duration := duration s + 1\<rparr> else s
      | DataAvailable data \<Rightarrow>
          (case mediaRecorderRef s of None \<Rightarrow> s | Some mr \<Rightarrow> ondataavailable data s)
      | SpeechResult event \<Rightarrow>
          (case recognitionRef s of None \<Rightarrow> s | Some r \<Rightarrow> onresult mount_render event s)
      | SpeechEnd \<Rightarrow>
          (case recognitionRef s of
             None \<Rightarrow> s
           | Some r \<Rightarrow> onend mount_render (s\<lparr>recognitionRef := Some (r\<lparr>sr_started := False\<rparr>)\<rparr>))
      | ClickStop \<Rightarrow> handleStopRecording s
      | ClickHighlight \<Rightarrow> addHighlight (current_render s) s
      | DisplayTrackEnded \<Rightarrow>
          (case endedListener s of
             None \<Rightarrow> s
           | Some v \<Rightarrow> handleStopRecording (s\<lparr>liveTracks := liveTracks s - {v}\<rparr>))
      | RecorderStop \<Rightarrow>
          if stopEventsPending s > 0
          then onstop mount_render (s\<lparr>stopEventsPending := stopEventsPending s - 1\<rparr>)
          else s)"

fun run :: "Event list \<Rightarrow> Recorder \<Rightarrow> Recorder" where
  "run [] s = s"
| "run (ev # evs) s = run evs (dispatch ev s)"

text \<open>A session: the component is mounted for a meeting, then events arrive.\<close>

definition session :: "Meeting \<Rightarrow> Browser \<Rightarrow> Event list \<Rightarrow> Recorder" where
  "session meeting browser evs = run evs (startCapture meeting browser initial_Recorder)"

section \<open>components/SummaryView: the clip builder\<close>

text \<open>
  The clip form of \<^verbatim>\<open>SummaryView\<close>. The argument \<open>video\<close> of the two capture
  handlers is \<^verbatim>\<open>videoRef.current\<close>: \<open>None\<close> when the ref is empty, otherwise the
  player's \<^verbatim>\<open>currentTime\<close>. These handlers come from the JSX of the current
  render, so they see the current form state.
\<close>

record ClipForm =
  clips :: "VideoClip list"
  newClipStart :: "rat option"
  newClipEnd :: "rat option"
  newClipLabel :: string

definition initial_ClipForm :: ClipForm where
  "initial_ClipForm = \<lparr>clips = [], newClipStart = None, newClipEnd = None, newClipLabel = []\<rparr>"

definition captureStart :: "rat option \<Rightarrow> ClipForm \<Rightarrow> ClipForm" where
  "captureStart video f =
     (case video of
        None \<Rightarrow> f
      | Some currentTime \<Rightarrow>
          (let f1 = f\<lparr>newClipStart := Some currentTime\<rparr>
           in case newClipEnd f of
                None \<Rightarrow> f1
              | Some e \<Rightarrow> if e < currentTime then f1\<lparr>newClipEnd := None\<rparr> else f1))"

definition captureEnd :: "rat option \<Rightarrow> ClipForm \<Rightarrow> ClipForm" where
  "captureEnd video f =
     (case video of
        None \<Rightarrow> f
      | Some currentTime \<Rightarrow> f\<lparr>newClipEnd := Some currentTime\<rparr>)"

text \<open>
  \<^verbatim>\<open>newClipLabel.trim()\<close> is truthy when the label has a character that is not
  white space (the ASCII white space characters here, a \<open>char\<close> being a byte).
\<close>

definition is_space :: "char \<Rightarrow> bool" where
  "is_space c = (c \<in> set [CHR 0x09, CHR 0x0A, CHR 0x0B, CHR 0x0C, CHR 0x0D, CHR 0x20])"

definition trim_truthy :: "string \<Rightarrow> bool" where
  "trim_truthy label = (\<not> list_all is_space label)"

text \<open>\<^verbatim>\<open>saveClip\<close>; \<open>now\<close> is \<^verbatim>\<open>Date.now().toString()\<close>.\<close>

definition saveClip :: "string \<Rightarrow> ClipForm \<Rightarrow> ClipForm" where
  "saveClip now f =
     (case (newClipStart f, newClipEnd f) of
        (Some st, Some en) \<Rightarrow>
          if trim_truthy (newClipLabel f) then
            f\<lparr>clips := clips f @
                 [\<lparr>clip_id = now, clip_label = newClipLabel f, clip_start = st, clip_end = en\<rparr>],
              newClipStart := None, newClipEnd := None, newClipLabel := []\<rparr>
          else f
      | _ \<Rightarrow> f)"

definition deleteClip :: "string \<Rightarrow> ClipForm \<Rightarrow> ClipForm" where
  "deleteClip ident f = f\<lparr>clips := filter (\<lambda>c. clip_id c \<noteq> ident) (clips f)\<rparr>"

datatype ClipAction =
    CaptureStart "rat option"
  | CaptureEnd "rat option"
  | TypeLabel string
  | SaveClip string
  | DeleteClip string

fun clip_step :: "ClipAction \<Rightarrow> ClipForm \<Rightarrow> ClipForm" where
  "clip_step (CaptureStart video) f = captureStart video f"
| "clip_step (CaptureEnd video) f = captureEnd video f"
| "clip_step (TypeLabel l) f = f\<lparr>newClipLabel := l\<rparr>"
| "clip_step (SaveClip now) f = saveClip now f"
| "clip_step (DeleteClip ident) f = deleteClip ident f"

fun clip_run :: "ClipAction list \<Rightarrow> ClipForm \<Rightarrow> ClipForm" where
  "clip_run [] f = f"
| "clip_run (a # as) f = clip_run as (clip_step a f)"

section \<open>Concrete inputs\<close>

definition example_meeting :: Meeting where
  "example_meeting = UPCOMING_MEETINGS ! 0"

definition example_app :: App where
  "example_app =
     \<lparr>app_state = RECORDING, activeMeeting = Some example_meeting, summaryData = None,
      recordedVideoBlob = None, processingError = None\<rparr>"

definition example_transcript :: "TranscriptSegment list" where
  "example_transcript = [\<lparr>seg_timestamp = 0, seg_text = ''hello'', seg_isFinal = True\<rparr>]"

definition display_video :: MediaStreamTrack where
  "display_video = \<lparr>track_id = 1, track_kind = VideoTrack\<rparr>"

definition display_audio :: MediaStreamTrack where
  "display_audio = \<lparr>track_id = 2, track_kind = AudioTrack\<rparr>"

definition mic_audio :: MediaStreamTrack where
  "mic_audio = \<lparr>track_id = 3, track_kind = AudioTrack\<rparr>"

definition mixed_audio :: MediaStreamTrack where
  "mixed_audio = \<lparr>track_id = 4, track_kind = AudioTrack\<rparr>"

text \<open>A browser in which both prompts are granted, and one in which the microphone is refused.\<close>

definition granting_browser :: Browser where
  "granting_browser =
     \<lparr>getDisplayMedia = Inr [display_video, display_audio], getUserMedia = Inr [mic_audio],
      destinationTrack = mixed_audio, speechSupported = True, mimeSupported = True,
      timerId = 1\<rparr>"

definition mic_denied_browser :: Browser where
  "mic_denied_browser = granting_browser\<lparr>getUserMedia := Inl (Named ''NotAllowedError'')\<rparr>"

definition final_hello :: SpeechRecognitionEvent where
  "final_hello = \<lparr>resultIndex = 0, results = [\<lparr>isFinal = True, alternative0 = ''hello''\<rparr>]\<rparr>"

section \<open>Predicates on the component state\<close>

text \<open>
  The start was cancelled: nothing was set up, \<^verbatim>\<open>onCancel\<close> was called once and
  nothing was handed over.
\<close>

definition cancelled :: "Recorder \<Rightarrow> bool" where
  "cancelled s \<longleftrightarrow>
     status s = Status_IDLE \<and> mediaRecorderRef s = None \<and> audioContextRef s = None \<and>
     stopEventsPending s = 0 \<and> onCancel_calls s = 1 \<and> onStop_calls s = []"

definition recorder_active :: "Recorder \<Rightarrow> bool" where
  "recorder_active s =
     (case mediaRecorderRef s of None \<Rightarrow> False | Some mr \<Rightarrow> mr_state mr \<noteq> inactive)"

definition recorder_stopped :: "Recorder \<Rightarrow> bool" where
  "recorder_stopped s =
     (case mediaRecorderRef s of None \<Rightarrow> False | Some mr \<Rightarrow> mr_state mr = inactive)"

text \<open>The two phases of a started session: before the first stop, and after it.\<close>

definition not_yet_stopped :: "Recorder \<Rightarrow> bool" where
  "not_yet_stopped s \<longleftrightarrow>
     recorder_active s \<and> stopEventsPending s = 0 \<and> onStop_calls s = [] \<and>
     mr_stop_calls s = 0 \<and> endedListener s \<noteq> None"

definition stopped_once :: "Recorder \<Rightarrow> bool" where
  "stopped_once s \<longleftrightarrow>
     recorder_stopped s \<and> mr_stop_calls s = 1 \<and>
     (stopEventsPending s = 1 \<and> onStop_calls s = [] \<or>
      stopEventsPending s = 0 \<and> length (onStop_calls s) = 1)"

text \<open>What the callbacks installed at mount time can produce.\<close>

definition handoffs_empty :: "Recorder \<Rightarrow> bool" where
  "handoffs_empty s =
     list_all (\<lambda>(audioBlob, videoBlob, ts, hs). ts = [] \<and> hs = []) (onStop_calls s)"

definition stamps_zero :: "Recorder \<Rightarrow> bool" where
  "stamps_zero s = list_all (\<lambda>t. seg_timestamp t = 0) (transcriptState s)"

definition never_restarted :: "Recorder \<Rightarrow> bool" where
  "never_restarted s =
     (case recognitionRef s of None \<Rightarrow> True | Some r \<Rightarrow> sr_start_calls r = 1)"

section \<open>Merging imported meetings\<close>

text \<open>
  C9. Merging imported meetings into the existing list, in demo mode and after a
  calendar fetch alike, keeps every existing meeting unchanged and in its place, and
  appends exactly those imported events, in their order, whose id occurs in no
  existing meeting.
\<close>

theorem merge_keeps_existing_appends_unseen:
  "take (length prev) (setMeetings_calendar calendarEvents prev) = prev \<and>
   drop (length prev) (setMeetings_calendar calendarEvents prev) =
     filter (\<lambda>e. \<forall>m \<in> set prev. meeting_id m \<noteq> meeting_id e) calendarEvents \<and>
   take (length prev) (setMeetings_demo prev) = prev \<and>
   drop (length prev) (setMeetings_demo prev) =
     filter (\<lambda>e. \<forall>m \<in> set prev. meeting_id m \<noteq> meeting_id e) UPCOMING_MEETINGS"
proof -
  have unseen: "(\<lambda>e. \<not> (meeting_id e \<in> set (map meeting_id prev))) =
                (\<lambda>e. \<forall>m \<in> set prev. meeting_id m \<noteq> meeting_id e)"
    by (auto simp: fun_eq_iff intro: rev_image_eqI)
  show ?thesis
    unfolding setMeetings_calendar_def setMeetings_demo_def Let_def unseen by simp
qed

theorem merge_keeps_existing_appends_unseen_witness:
  "setMeetings_demo (take 2 UPCOMING_MEETINGS) = UPCOMING_MEETINGS \<and>
   drop 2 (setMeetings_calendar [UPCOMING_MEETINGS ! 1, UPCOMING_MEETINGS ! 2]
             (take 2 UPCOMING_MEETINGS)) = [UPCOMING_MEETINGS ! 2]"
  using merge_keeps_existing_appends_unseen
          [of "take 2 UPCOMING_MEETINGS" "[UPCOMING_MEETINGS ! 1, UPCOMING_MEETINGS ! 2]"]
  by (simp add: UPCOMING_MEETINGS_def setMeetings_demo_def setMeetings_calendar_def)

section \<open>The summarization service\<close>

text \<open>
  C10. Whatever its arguments, \<^verbatim>\<open>generateMeetingSummary\<close> fails with the error
  "API Key is missing. Please set process.env.API_KEY" and sends nothing to the backend
  when the API key was not set (or was empty) at module load; whenever it does send a
  request, a non-empty key was present.
\<close>

theorem summary_requires_api_key:
  "(env_API_KEY = None \<or> env_API_KEY = Some [] \<longrightarrow>
      generateMeetingSummary env_API_KEY generateContent parse audio context ts hs =
        ([], Inl (Error ''API Key is missing. Please set process.env.API_KEY''))) \<and>
   (fst (generateMeetingSummary env_API_KEY generateContent parse audio context ts hs) \<noteq> [] \<longrightarrow>
      (\<exists>k. env_API_KEY = Some k \<and> k \<noteq> []))"
  by (auto simp: generateMeetingSummary_def apiKey_def or_string_def Let_def
      split: option.splits if_splits)

theorem summary_requires_api_key_witness:
  "generateMeetingSummary None (\<lambda>r. Inr None) (\<lambda>t. Inr empty_object) ''QUJD'' ''ctx'' [] [] =
     ([], Inl (Error ''API Key is missing. Please set process.env.API_KEY'')) \<and>
   fst (generateMeetingSummary (Some ''k'') (\<lambda>r. Inr None) (\<lambda>t. Inr empty_object)
          ''QUJD'' ''ctx'' [] []) =
     [\<lparr>req_model = ''gemini-2.5-flash'', req_audio = ''QUJD'', req_context = ''ctx'',
       req_highlights = ''None provided.'',
       req_transcript = ''No live transcript available, rely on audio.''\<rparr>]"
  using summary_requires_api_key
          [of None "\<lambda>r. Inr None" "\<lambda>t. Inr empty_object" "''QUJD''" "''ctx''" "[]" "[]"]
        summary_requires_api_key
          [of "Some ''k''" "\<lambda>r. Inr None" "\<lambda>t. Inr empty_object" "''QUJD''" "''ctx''" "[]" "[]"]
  by (simp add: generateMeetingSummary_def apiKey_def or_string_def Let_def
      formattedHighlights_def formattedTranscript_def)

section \<open>Normalizing the summary result\<close>

lemma generateMeetingSummary_transcript:
  "snd (generateMeetingSummary env_API_KEY generateContent parse audio context ts hs) = Inr result
   \<Longrightarrow> p_transcript result = Some ts"
  by (auto simp: generateMeetingSummary_def Let_def split: if_splits sum.splits)

lemma App_handleStopRecording_success:
  assumes "snd (generateMeetingSummary env_API_KEY generateContent parse
                  (encode audioVideoBlob) (summary_context (activeMeeting app)) ts hs) = Inr result"
  shows "summaryData (snd (App_handleStopRecording env_API_KEY generateContent parse encode
            today audioVideoBlob videoBlob ts hs app)) =
         Some (normalizeSummary (activeMeeting app) today result)"
  using assms by (auto simp: App_handleStopRecording_def Let_def split: prod.splits sum.splits)

text \<open>
  C6, as the claim states it: a backend answer without any field would normalize to a
  summary whose \<^verbatim>\<open>summaryText\<close> is the empty string. It does not: with a backend
  that answers without text (parsed as \<^verbatim>\<open>{}\<close>), the summary text is not empty.
\<close>

theorem normalize_summaryText_counterexample:
  "\<not> (map_option summaryText
         (summaryData (snd (App_handleStopRecording (Some ''key'') (\<lambda>r. Inr None)
            (\<lambda>t. Inl (Error ''not called'')) (\<lambda>b. ''QUJD'') ''11/3/2026''
            ''ABC'' (Some ''ABC'') example_transcript [] example_app))) = Some [])"
  by (simp add: App_handleStopRecording_def generateMeetingSummary_def apiKey_def
      or_string_def or_array_def Let_def JSON_parse_def empty_object_def normalizeSummary_def)

text \<open>
  C6, amended. Whenever the summarization call succeeds, the stored summary's
  transcript is the transcript supplied in the request, whatever the backend sent; and
  when the backend omitted every optional field the stored summary is exactly
  summaryText "No summary generated.", keyPoints, actionItems and attendeesDetected
  empty, sentiment "Neutral", followUpEmail empty, transcript the request's transcript
  (next to the meeting title and the date, which do not come from the backend).
\<close>

theorem normalize_defaults:
  assumes "snd (generateMeetingSummary env_API_KEY generateContent parse
                  (encode audioVideoBlob) (summary_context (activeMeeting app)) ts hs) = Inr result"
  shows "map_option transcript
           (summaryData (snd (App_handleStopRecording env_API_KEY generateContent parse encode
              today audioVideoBlob videoBlob ts hs app))) = Some ts \<and>
         (p_summaryText result = None \<and> p_keyPoints result = None \<and> p_actionItems result = None \<and>
          p_attendeesDetected result = None \<and> p_sentiment result = None \<and>
          p_followUpEmail result = None \<longrightarrow>
          summaryData (snd (App_handleStopRecording env_API_KEY generateContent parse encode
              today audioVideoBlob videoBlob ts hs app)) =
            Some \<lparr>meetingTitle =
                    or_string (map_option meeting_title (activeMeeting app)) ''Unknown Meeting'',
                  date = today, summaryText = ''No summary generated.'', keyPoints = [],
                  actionItems = [], attendeesDetected = [], sentiment = ''Neutral'',
                  followUpEmail = [], transcript = ts\<rparr>)"
proof -
  have tr: "p_transcript result = Some ts"
    using assms by (rule generateMeetingSummary_transcript)
  have sd: "summaryData (snd (App_handleStopRecording env_API_KEY generateContent parse encode
              today audioVideoBlob videoBlob ts hs app)) =
            Some (normalizeSummary (activeMeeting app) today result)"
    using assms by (rule App_handleStopRecording_success)
  show ?thesis
    unfolding sd by (simp add: normalizeSummary_def or_string_def or_array_def tr)
qed

theorem normalize_defaults_witness:
  "summaryData (snd (App_handleStopRecording (Some ''key'') (\<lambda>r. Inr None)
      (\<lambda>t. Inl (Error ''not called'')) (\<lambda>b. ''QUJD'') ''11/3/2026''
      ''ABC'' (Some ''ABC'') example_transcript [] example_app)) =
   Some \<lparr>meetingTitle = ''Q3 Product Roadmap Review'', date = ''11/3/2026'',
         summaryText = ''No summary generated.'', keyPoints = [], actionItems = [],
         attendeesDetected = [], sentiment = ''Neutral'', followUpEmail = [],
         transcript = example_transcript\<rparr>"
proof -
  have ok: "snd (generateMeetingSummary (Some ''key'') (\<lambda>r. Inr None)
                  (\<lambda>t. Inl (Error ''not called'')) ((\<lambda>b. ''QUJD'') ''ABC'')
                  (summary_context (activeMeeting example_app)) example_transcript []) =
            Inr (empty_object\<lparr>p_transcript := Some example_transcript\<rparr>)"
    by (simp add: generateMeetingSummary_def apiKey_def or_string_def Let_def JSON_parse_def)
  show ?thesis
    using ok normalize_defaults [where env_API_KEY = "Some ''key''"
        and generateContent = "\<lambda>r. Inr None" and parse = "\<lambda>t. Inl (Error ''not called'')"
        and encode = "\<lambda>b. ''QUJD''" and audioVideoBlob = "''ABC''"
        and app = example_app and ts = example_transcript and hs = "[]"
        and result = "empty_object\<lparr>p_transcript := Some example_transcript\<rparr>"
        and today = "''11/3/2026''" and videoBlob = "Some ''ABC''"]
    by (simp add: empty_object_def example_app_def example_meeting_def UPCOMING_MEETINGS_def
        or_string_def)
qed

section \<open>The clip builder\<close>

text \<open>
  Re-capturing the start does keep a pending end that lies before it from surviving.
\<close>

lemma captureStart_orders:
  "newClipStart (captureStart (Some t) f) = Some st \<Longrightarrow>
   newClipEnd (captureStart (Some t) f) = Some en \<Longrightarrow> st \<le> en"
  by (auto simp: captureStart_def Let_def split: option.splits if_splits)

text \<open>
  C7. Every committed clip should have start at most end. Capturing the start at 50s,
  then the end at 30s, typing a label and saving commits a clip with start 50 and
  end 30: \<^verbatim>\<open>captureEnd\<close> has no check like the one in \<^verbatim>\<open>captureStart\<close>.
\<close>

theorem inverted_clip_is_committed:
  "clips (clip_run [CaptureStart (Some 50), CaptureEnd (Some 30), TypeLabel ''Budget'',
                    SaveClip ''1700000000000''] initial_ClipForm) =
     [\<lparr>clip_id = ''1700000000000'', clip_label = ''Budget'', clip_start = 50, clip_end = 30\<rparr>]"
  by (simp add: initial_ClipForm_def captureStart_def captureEnd_def saveClip_def
      trim_truthy_def is_space_def)

section \<open>Recorder: what each handler leaves alone\<close>

lemmas recorder_defs =
  session_def startCapture_def startCapture_catch_def initSpeechRecognition_def
  recognition_start_def dispatch_def onresult_def onend_def onstop_def onStop_def onCancel_def
  unmount_def cleanup_def handleStopRecording_def addHighlight_def ondataavailable_def
  current_render_def mount_render_def initial_Recorder_def getAudioTracks_def getVideoTracks_def
  Let_def

lemmas example_defs =
  granting_browser_def mic_denied_browser_def display_video_def display_audio_def mic_audio_def
  mixed_audio_def final_hello_def example_transcript_def

lemma cleanup_keeps [simp]:
  "status (cleanup s) = status s"
  "transcriptState (cleanup s) = transcriptState s"
  "mediaRecorderRef (cleanup s) = mediaRecorderRef s"
  "stopEventsPending (cleanup s) = stopEventsPending s"
  "onStop_calls (cleanup s) = onStop_calls s"
  "onCancel_calls (cleanup s) = onCancel_calls s"
  "mr_stop_calls (cleanup s) = mr_stop_calls s"
  "endedListener (cleanup s) = endedListener s"
  "audioContextRef (cleanup s) = map_option (\<lambda>ctx. ctx\<lparr>ctx_closed := True\<rparr>) (audioContextRef s)"
  "recognitionRef (cleanup s) = map_option (\<lambda>r. r\<lparr>sr_started := False\<rparr>) (recognitionRef s)"
  by (cases "intervalRef s"; cases "streamRef s"; cases "audioContextRef s";
      cases "recognitionRef s"; simp add: cleanup_def)+

lemma cleanup_idem: "cleanup (cleanup s) = cleanup s"
  by (cases "intervalRef s"; cases "streamRef s"; cases "audioContextRef s";
      cases "recognitionRef s"; simp add: cleanup_def)

lemma onresult_keeps [simp]:
  "status (onresult env event s) = status s"
  "mediaRecorderRef (onresult env event s) = mediaRecorderRef s"
  "stopEventsPending (onresult env event s) = stopEventsPending s"
  "onStop_calls (onresult env event s) = onStop_calls s"
  "onCancel_calls (onresult env event s) = onCancel_calls s"
  "mr_stop_calls (onresult env event s) = mr_stop_calls s"
  "endedListener (onresult env event s) = endedListener s"
  "audioContextRef (onresult env event s) = audioContextRef s"
  by (simp_all add: onresult_def Let_def split: prod.splits)

lemma onend_keeps [simp]:
  "status (onend env s) = status s"
  "mediaRecorderRef (onend env s) = mediaRecorderRef s"
  "stopEventsPending (onend env s) = stopEventsPending s"
  "onStop_calls (onend env s) = onStop_calls s"
  "onCancel_calls (onend env s) = onCancel_calls s"
  "mr_stop_calls (onend env s) = mr_stop_calls s"
  "endedListener (onend env s) = endedListener s"
  "audioContextRef (onend env s) = audioContextRef s"
  by (simp_all add: onend_def split: option.splits)

lemma addHighlight_keeps [simp]:
  "status (addHighlight env s) = status s"
  "mediaRecorderRef (addHighlight env s) = mediaRecorderRef s"
  "stopEventsPending (addHighlight env s) = stopEventsPending s"
  "onStop_calls (addHighlight env s) = onStop_calls s"
  "onCancel_calls (addHighlight env s) = onCancel_calls s"
  "mr_stop_calls (addHighlight env s) = mr_stop_calls s"
  "endedListener (addHighlight env s) = endedListener s"
  "audioContextRef (addHighlight env s) = audioContextRef s"
  by (simp_all add: addHighlight_def Let_def)

lemma ondataavailable_keeps [simp]:
  "status (ondataavailable data s) = status s"
  "mediaRecorderRef (ondataavailable data s) = mediaRecorderRef s"
  "stopEventsPending (ondataavailable data s) = stopEventsPending s"
  "onStop_calls (ondataavailable data s) = onStop_calls s"
  "onCancel_calls (ondataavailable data s) = onCancel_calls s"
  "mr_stop_calls (ondataavailable data s) = mr_stop_calls s"
  "endedListener (ondataavailable data s) = endedListener s"
  "audioContextRef (ondataavailable data s) = audioContextRef s"
  by (simp_all add: ondataavailable_def)

lemma onstop_keeps [simp]:
  "status (onstop env s) = status s"
  "mediaRecorderRef (onstop env s) = mediaRecorderRef s"
  "stopEventsPending (onstop env s) = stopEventsPending s"
  "onStop_calls (onstop env s) =
     onStop_calls s @ [(concat (chunksRef s), Some (concat (chunksRef s)),
                        c_transcript env, c_highlights env)]"
  "onCancel_calls (onstop env s) = onCancel_calls s"
  "mr_stop_calls (onstop env s) = mr_stop_calls s"
  "endedListener (onstop env s) = endedListener s"
  by (simp_all add: onstop_def onStop_def unmount_def Let_def split: option.splits)

lemma handleStopRecording_keeps [simp]:
  "status (handleStopRecording s) = status s"
  "onStop_calls (handleStopRecording s) = onStop_calls s"
  "onCancel_calls (handleStopRecording s) = onCancel_calls s"
  "endedListener (handleStopRecording s) = endedListener s"
  "audioContextRef (handleStopRecording s) =
     map_option (\<lambda>ctx. ctx\<lparr>ctx_closed := True\<rparr>) (audioContextRef s)"
  by (simp_all add: handleStopRecording_def split: option.splits)

lemma handleStopRecording_active:
  "mediaRecorderRef s = Some mr \<Longrightarrow> mr_state mr \<noteq> inactive \<Longrightarrow>
   mediaRecorderRef (handleStopRecording s) = Some (mr\<lparr>mr_state := inactive\<rparr>) \<and>
   mr_stop_calls (handleStopRecording s) = mr_stop_calls s + 1 \<and>
   stopEventsPending (handleStopRecording s) = stopEventsPending s + 1"
  by (simp add: handleStopRecording_def)

lemma handleStopRecording_inactive:
  "mediaRecorderRef s = None \<or> (\<exists>mr. mediaRecorderRef s = Some mr \<and> mr_state mr = inactive) \<Longrightarrow>
   mediaRecorderRef (handleStopRecording s) = mediaRecorderRef s \<and>
   mr_stop_calls (handleStopRecording s) = mr_stop_calls s \<and>
   stopEventsPending (handleStopRecording s) = stopEventsPending s"
  by (auto simp: handleStopRecording_def)

lemma handleStopRecording_idem:
  "handleStopRecording (handleStopRecording s) = handleStopRecording s"
proof (cases "mediaRecorderRef s")
  case None
  then show ?thesis by (simp add: handleStopRecording_def cleanup_idem)
next
  case (Some mr)
  then show ?thesis by (simp add: handleStopRecording_def cleanup_idem)
qed

lemma run_append: "run (evs @ evs') s = run evs' (run evs s)"
  by (induction evs arbitrary: s) simp_all

section \<open>Recorder: callbacks installed at mount time\<close>

text \<open>
  What \<^verbatim>\<open>onresult\<close> does with the render it is given: a final text is appended,
  stamped with that render's duration, and the partial text is cleared; without a final
  text only the partial text is replaced.
\<close>

lemma onresult_final:
  "collect_results (drop (resultIndex event) (results event)) ([], []) = (interim, final) \<Longrightarrow>
   final \<noteq> [] \<Longrightarrow>
   transcriptState (onresult env event s) =
     transcriptState s @ [\<lparr>seg_timestamp = c_duration env, seg_text = final, seg_isFinal = True\<rparr>] \<and>
   currentText (onresult env event s) = []"
  by (simp add: onresult_def)

lemma onresult_interim:
  "collect_results (drop (resultIndex event) (results event)) ([], []) = (interim, []) \<Longrightarrow>
   transcriptState (onresult env event s) = transcriptState s \<and>
   currentText (onresult env event s) = interim"
  by (simp add: onresult_def)

text \<open>
  In every session, whatever the browser grants and whatever events arrive: each
  handoff carries an empty transcript and no highlights, each transcript segment is
  stamped 0, and recognition has been started at most the one time of
  \<^verbatim>\<open>initSpeechRecognition\<close>.
\<close>

lemma stale_dispatch:
  "handoffs_empty s \<and> stamps_zero s \<and> never_restarted s \<Longrightarrow>
   handoffs_empty (dispatch ev s) \<and> stamps_zero (dispatch ev s) \<and> never_restarted (dispatch ev s)"
  by (cases ev)
     (auto simp: handoffs_empty_def stamps_zero_def never_restarted_def dispatch_def
        handleStopRecording_def onresult_def onend_def onstop_def onStop_def unmount_def
        addHighlight_def ondataavailable_def mount_render_def current_render_def
        initial_Recorder_def Let_def
        split: option.splits prod.splits)

lemma stale_start:
  "handoffs_empty (startCapture meeting browser initial_Recorder) \<and>
   stamps_zero (startCapture meeting browser initial_Recorder) \<and>
   never_restarted (startCapture meeting browser initial_Recorder)"
  by (auto simp: handoffs_empty_def stamps_zero_def never_restarted_def startCapture_def
      startCapture_catch_def onCancel_def unmount_def initSpeechRecognition_def
      recognition_start_def initial_Recorder_def Let_def
      split: sum.splits list.splits)

lemma stale_session:
  "handoffs_empty (session meeting browser evs) \<and> stamps_zero (session meeting browser evs) \<and>
   never_restarted (session meeting browser evs)"
proof -
  have "handoffs_empty s \<and> stamps_zero s \<and> never_restarted s \<Longrightarrow>
        handoffs_empty (run evs s) \<and> stamps_zero (run evs s) \<and> never_restarted (run evs s)" for s
  proof (induction evs arbitrary: s)
    case Nil
    then show ?case by simp
  next
    case (Cons ev evs)
    from stale_dispatch [OF Cons.prems] show ?case
      by (simp add: Cons.IH)
  qed
  then show ?thesis
    unfolding session_def using stale_start by blast
qed

text \<open>
  C1. When a recording stops, the handoff to \<^verbatim>\<open>onStop\<close> should carry the
  transcript segments and highlights accumulated before the stop. In this session one
  segment is finalized and one highlight marked before the operator stops: the
  component state holds both, and the handoff carries neither.
\<close>

theorem onStop_receives_empty_lists:
  "transcriptState (session example_meeting granting_browser
      [SpeechResult final_hello, ClickHighlight, DataAvailable ''ABC'', ClickStop, RecorderStop]) =
     example_transcript \<and>
   highlights (session example_meeting granting_browser
      [SpeechResult final_hello, ClickHighlight, DataAvailable ''ABC'', ClickStop, RecorderStop]) =
     [\<lparr>hl_timestamp = 0, hl_label = ''Important''\<rparr>] \<and>
   onStop_calls (session example_meeting granting_browser
      [SpeechResult final_hello, ClickHighlight, DataAvailable ''ABC'', ClickStop, RecorderStop]) =
     [(''ABC'', Some ''ABC'', [], [])]"
  by (simp add: recorder_defs example_defs)

text \<open>
  C2. A result finalized while the clock reads d should be stamped d, and appending it
  clears the partial text. After five clock ticks the duration is 5; the segment
  finalized then is appended with timestamp 0.
\<close>

theorem final_segment_stamped_zero:
  "duration (session example_meeting granting_browser
      [Tick, Tick, Tick, Tick, Tick, SpeechResult final_hello]) = 5 \<and>
   transcriptState (session example_meeting granting_browser
      [Tick, Tick, Tick, Tick, Tick, SpeechResult final_hello]) =
     [\<lparr>seg_timestamp = 0, seg_text = ''hello'', seg_isFinal = True\<rparr>] \<and>
   currentText (session example_meeting granting_browser
      [Tick, Tick, Tick, Tick, Tick, SpeechResult final_hello]) = []"
  by (simp add: recorder_defs example_defs)

text \<open>
  C5. When recognition ends by itself while the session is recording, a restart should
  be attempted. After a successful start the status is RECORDING and recognition has
  been started once; when it then ends, it stays stopped and \<^verbatim>\<open>start\<close> is not
  called again.
\<close>

theorem recognition_not_restarted:
  "status (session example_meeting granting_browser [SpeechEnd]) = Status_RECORDING \<and>
   recognitionRef (session example_meeting granting_browser []) =
     Some \<lparr>sr_started = True, sr_start_calls = 1\<rparr> \<and>
   recognitionRef (session example_meeting granting_browser [SpeechEnd]) =
     Some \<lparr>sr_started = False, sr_start_calls = 1\<rparr>"
  by (simp add: recorder_defs example_defs)

section \<open>Recorder: releasing the acquired tracks\<close>

text \<open>The tracks that \<^verbatim>\<open>cleanup\<close> does stop are those of the stream kept in the ref.\<close>

lemma cleanup_stops_mixed_stream:
  "streamRef s = Some stream \<Longrightarrow> liveTracks (cleanup s) = liveTracks s - set stream"
  by (cases "intervalRef s"; cases "audioContextRef s"; cases "recognitionRef s";
      simp add: cleanup_def)

text \<open>
  C3. Teardown should stop every track of every acquired stream on every exit path.
  After an operator stop, with the stop event delivered and the component unmounted,
  the display's audio track and the microphone track are still live; after a refused
  microphone prompt, the display's tracks acquired before it are still live.
\<close>

theorem tracks_left_live:
  "liveTracks (session example_meeting granting_browser [ClickStop, RecorderStop]) =
     {display_audio, mic_audio} \<and>
   liveTracks (session example_meeting mic_denied_browser []) = {display_video, display_audio}"
  by (auto simp add: recorder_defs example_defs)

section \<open>Recorder: refused permissions\<close>

lemma cancelled_dispatch: "cancelled s \<Longrightarrow> cancelled (dispatch ev s)"
  by (cases ev)
     (auto simp: cancelled_def dispatch_def handleStopRecording_inactive split: option.splits)

lemma cancelled_run: "cancelled s \<Longrightarrow> cancelled (run evs s)"
  by (induction evs arbitrary: s) (simp_all add: cancelled_dispatch)

lemma denied_start_cancelled:
  assumes "getDisplayMedia browser = Inl (Named ''NotAllowedError'') \<or>
           (getDisplayMedia browser = Inr displayStream \<and>
            getUserMedia browser = Inl (Named ''NotAllowedError''))"
  shows "cancelled (startCapture meeting browser initial_Recorder)"
  using assms
  by (auto simp: cancelled_def startCapture_def startCapture_catch_def onCancel_def unmount_def
      initial_Recorder_def Let_def)

text \<open>
  C4, as the claim states it: with the display granted and the microphone refused the
  start would succeed and the mixing graph would be built from the display audio alone.
  It does not: the component is not recording, and no audio graph and no recorder exist.
\<close>

theorem mic_denied_start_counterexample:
  "status (session example_meeting mic_denied_browser []) \<noteq> Status_RECORDING \<and>
   audioContextRef (session example_meeting mic_denied_browser []) = None \<and>
   mediaRecorderRef (session example_meeting mic_denied_browser []) = None"
  by (simp add: recorder_defs example_defs)

text \<open>
  C4, amended. If the display prompt is refused, or the display is granted and the
  microphone prompt is refused, the start fails: \<^verbatim>\<open>onCancel\<close> is called once, the
  component never records, no mixing graph and no recorder are created, and no artifact
  is handed over, whatever events follow.
\<close>

theorem denied_permission_cancels_start:
  assumes "getDisplayMedia browser = Inl (Named ''NotAllowedError'') \<or>
           (getDisplayMedia browser = Inr displayStream \<and>
            getUserMedia browser = Inl (Named ''NotAllowedError''))"
  shows "status (session meeting browser evs) = Status_IDLE \<and>
         mediaRecorderRef (session meeting browser evs) = None \<and>
         audioContextRef (session meeting browser evs) = None \<and>
         onCancel_calls (session meeting browser evs) = 1 \<and>
         onStop_calls (session meeting browser evs) = []"
proof -
  have "cancelled (session meeting browser evs)"
    unfolding session_def using assms by (intro cancelled_run denied_start_cancelled)
  then show ?thesis by (simp add: cancelled_def)
qed

theorem denied_permission_cancels_start_witness:
  "status (session example_meeting mic_denied_browser [ClickStop, RecorderStop]) = Status_IDLE \<and>
   onStop_calls (session example_meeting mic_denied_browser [ClickStop, RecorderStop]) = [] \<and>
   onCancel_calls (session example_meeting
      (granting_browser\<lparr>getDisplayMedia := Inl (Named ''NotAllowedError''),
                        getUserMedia := Inl (Named ''NotAllowedError'')\<rparr>) []) = 1"
  using denied_permission_cancels_start [of mic_denied_browser "[display_video, display_audio]"
          example_meeting "[ClickStop, RecorderStop]"]
        denied_permission_cancels_start [of
          "granting_browser\<lparr>getDisplayMedia := Inl (Named ''NotAllowedError''),
                            getUserMedia := Inl (Named ''NotAllowedError'')\<rparr>"
          "[]" example_meeting "[]"]
  by (simp add: mic_denied_browser_def granting_browser_def)

section \<open>Recorder: stopping more than once\<close>

lemma stopped_once_dispatch: "stopped_once s \<Longrightarrow> stopped_once (dispatch ev s)"
  by (cases ev)
     (auto simp: stopped_once_def recorder_stopped_def dispatch_def handleStopRecording_inactive
        split: option.splits)

lemma stopped_once_run: "stopped_once s \<Longrightarrow> stopped_once (run evs s)"
  by (induction evs arbitrary: s) (simp_all add: stopped_once_dispatch)

lemma not_yet_stopped_dispatch:
  "not_yet_stopped s \<Longrightarrow>
   (if ev = ClickStop \<or> ev = DisplayTrackEnded then stopped_once (dispatch ev s)
    else not_yet_stopped (dispatch ev s))"
  by (cases ev)
     (auto simp: not_yet_stopped_def stopped_once_def recorder_stopped_def recorder_active_def
        dispatch_def handleStopRecording_active split: option.splits)

lemma not_yet_stopped_run:
  "not_yet_stopped s \<Longrightarrow> ClickStop \<in> set evs \<or> DisplayTrackEnded \<in> set evs \<Longrightarrow>
   stopped_once (run evs s)"
proof (induction evs arbitrary: s)
  case Nil
  then show ?case by simp
next
  case (Cons ev evs)
  show ?case
  proof (cases "ev = ClickStop \<or> ev = DisplayTrackEnded")
    case True
    with Cons.prems(1) have "stopped_once (dispatch ev s)"
      using not_yet_stopped_dispatch [of s ev] by simp
    then show ?thesis by (simp add: stopped_once_run)
  next
    case False
    with Cons.prems(1) have "not_yet_stopped (dispatch ev s)"
      using not_yet_stopped_dispatch [of s ev] by simp
    moreover from False Cons.prems(2) have "ClickStop \<in> set evs \<or> DisplayTrackEnded \<in> set evs"
      by auto
    ultimately show ?thesis using Cons.IH by simp
  qed
qed

lemma stopped_once_delivered:
  "stopped_once s \<Longrightarrow> length (onStop_calls (dispatch RecorderStop s)) = 1"
  by (auto simp: stopped_once_def dispatch_def)

text \<open>
  C8. Stopping is idempotent. In a session whose recorder is active and has not been
  stopped, let any events arrive, among them at least one stop trigger (the operator's
  stop or the end of the display's video track; both may occur, any number of times and
  in any order, also interleaved with the delivery of the recorder's stop event). Then
  \<^verbatim>\<open>MediaRecorder.stop\<close> has been called exactly once, at most one artifact has been
  handed over so far, and once the recorder's stop event has been delivered exactly one
  has. A second \<^verbatim>\<open>handleStopRecording\<close> right after the first changes nothing.
\<close>

theorem stop_is_idempotent:
  assumes "mediaRecorderRef s = Some mr" and "mr_state mr \<noteq> inactive"
    and "stopEventsPending s = 0" and "onStop_calls s = []" and "mr_stop_calls s = 0"
    and "endedListener s = Some v"
    and "ClickStop \<in> set evs \<or> DisplayTrackEnded \<in> set evs"
  shows "mr_stop_calls (run evs s) = 1 \<and>
         length (onStop_calls (run evs s)) \<le> 1 \<and>
         length (onStop_calls (run (evs @ [RecorderStop]) s)) = 1 \<and>
         handleStopRecording (handleStopRecording s) = handleStopRecording s"
proof -
  have "not_yet_stopped s"
    using assms by (simp add: not_yet_stopped_def recorder_active_def)
  then have once: "stopped_once (run evs s)"
    using assms(7) by (rule not_yet_stopped_run)
  have "length (onStop_calls (run (evs @ [RecorderStop]) s)) = 1"
    using stopped_once_delivered [OF once] by (simp add: run_append)
  with once show ?thesis
    by (auto simp: stopped_once_def handleStopRecording_idem)
qed

theorem stop_is_idempotent_witness:
  "mr_stop_calls (session example_meeting granting_browser [ClickStop, DisplayTrackEnded]) = 1 \<and>
   length (onStop_calls (session example_meeting granting_browser
             [ClickStop, DisplayTrackEnded, RecorderStop])) = 1"
  using stop_is_idempotent [of "startCapture example_meeting granting_browser initial_Recorder"
          "\<lparr>mr_stream = [display_video, mixed_audio], mr_state = recording\<rparr>" display_video
          "[ClickStop, DisplayTrackEnded]"]
  by (simp add: session_def startCapture_def initSpeechRecognition_def recognition_start_def
        initial_Recorder_def getAudioTracks_def getVideoTracks_def Let_def
        granting_browser_def display_video_def display_audio_def mic_audio_def mixed_audio_def)

end
